theory Spec2Isabelle
  imports Complex_Main
begin

section \<open>The host: JavaScript strings and numbers\<close>

text \<open>
  \<^verbatim>\<open>src/index.ts\<close> registers two tool handlers, \<^verbatim>\<open>curl\<close> and \<^verbatim>\<open>parse-json\<close>. Both are a
  few lines of glue around host operations: \<^verbatim>\<open>JSON.parse\<close>, \<^verbatim>\<open>JSON.stringify\<close>,
  \<^verbatim>\<open>String\<close>, \<^verbatim>\<open>typeof\<close>, property access \<^verbatim>\<open>v[k]\<close>, \<^verbatim>\<open>String.prototype.split\<close> and
  node-fetch's \<^verbatim>\<open>fetch\<close>, \<^verbatim>\<open>Response.json\<close> and \<^verbatim>\<open>Response.text\<close>. The handlers are
  translated line by line further down; the host operations they call are modelled first,
  after ECMA-262 and node-fetch 2 (the version whose \<^verbatim>\<open>RequestInit\<close> has the \<^verbatim>\<open>timeout\<close>
  field that the source sets).

  A JavaScript string is a sequence of UTF-16 code units; a code unit is modelled as a
  natural number. \<open>js\<close> turns an Isabelle string literal into such a sequence.
\<close>

type_synonym jsstring = "nat list"

definition js :: "string \<Rightarrow> jsstring" where
  "js s = map of_char s"

text \<open>
  A JavaScript Number is an IEEE-754 double. The only Numbers this program ever holds come
  out of \<^verbatim>\<open>JSON.parse\<close> (or are a status code or a length), so NaN does not occur. A finite
  double is modelled by the rational number it denotes, \<open>Finite 0\<close> being \<open>+0\<close>;
  \<open>NegZero\<close> is \<open>-0\<close>, which \<^verbatim>\<open>JSON.parse\<close> builds from \<^verbatim>\<open>-0\<close> and from a negative literal
  too small for a double, and which \<^verbatim>\<open>String\<close> and \<^verbatim>\<open>JSON.stringify\<close> print as \<^verbatim>\<open>0\<close>.
\<close>

datatype jsnum = Finite rat | NegZero | PosInfinity | NegInfinity

fun negate :: "jsnum \<Rightarrow> jsnum" where
  "negate (Finite q) = (if q = 0 then NegZero else Finite (- q))"
| "negate NegZero = Finite 0"
| "negate PosInfinity = NegInfinity"
| "negate NegInfinity = PosInfinity"

text \<open>
  \<open>floor_log b q\<close> is \<open>\<lfloor>log\<^sub>b q\<rfloor>\<close> for a positive rational \<open>q\<close> and a base \<open>b > 1\<close>:
  it counts the divisions by \<open>b\<close> that bring \<open>q\<close> below \<open>b\<close>, or the multiplications that
  bring it up to \<open>1\<close>.
\<close>

lemma log_up_decreases:
  fixes q :: rat and b :: int
  assumes "1 < b" "of_int b \<le> q"
  shows "nat \<lfloor>q / of_int b\<rfloor> < nat \<lfloor>q\<rfloor>"
proof -
  have b: "(2::rat) \<le> of_int b" using assms(1) by linarith
  have "q / of_int b \<le> q / 2"
    using b assms by (intro divide_left_mono) auto
  then have "\<lfloor>q / of_int b\<rfloor> \<le> \<lfloor>q / 2\<rfloor>"
    by (rule floor_mono)
  moreover have "\<lfloor>q / 2\<rfloor> < \<lfloor>q\<rfloor>"
    using b assms by linarith
  moreover have "0 < \<lfloor>q\<rfloor>"
    using b assms by linarith
  ultimately show ?thesis by linarith
qed

lemma ceiling_half_less:
  fixes x :: rat
  assumes "1 < x"
  shows "\<lceil>x / 2\<rceil> < \<lceil>x\<rceil>"
proof -
  define c where "c = \<lceil>x\<rceil>"
  have "1 < c" using assms unfolding c_def by (simp add: less_ceiling_iff)
  then have c2: "(2::rat) \<le> of_int c" by linarith
  have xc: "x \<le> of_int c" unfolding c_def by (rule le_of_int_ceiling)
  have "x / 2 \<le> of_int c - 1" using xc c2 by linarith
  then have "x / 2 \<le> of_int (c - 1)" by simp
  then have "\<lceil>x / 2\<rceil> \<le> c - 1" by (rule ceiling_le)
  then show ?thesis unfolding c_def by simp
qed

lemma log_down_decreases:
  fixes q :: rat and b :: int
  assumes "1 < b" "0 < q" "q < 1"
  shows "nat \<lceil>1 / (q * of_int b)\<rceil> < nat \<lceil>1 / q\<rceil>"
proof -
  have b: "(2::rat) \<le> of_int b" using assms(1) by linarith
  have C: "1 < 1 / q" using assms by simp
  have "(1 / q) / of_int b \<le> (1 / q) / 2"
    using b assms by (intro divide_left_mono) auto
  moreover have "1 / (q * of_int b) = (1 / q) / of_int b" by simp
  ultimately have "1 / (q * of_int b) \<le> (1 / q) / 2" by (simp only:)
  then have "\<lceil>1 / (q * of_int b)\<rceil> \<le> \<lceil>(1 / q) / 2\<rceil>"
    by (rule ceiling_mono)
  also have "\<dots> < \<lceil>1 / q\<rceil>"
    using C by (rule ceiling_half_less)
  finally have E: "\<lceil>1 / (q * of_int b)\<rceil> < \<lceil>1 / q\<rceil>" .
  have "0 < 1 / q" using assms by simp
  then have "0 < \<lceil>1 / q\<rceil>" by (simp only: zero_less_ceiling)
  with E show ?thesis by (simp only: nat_mono_iff)
qed

function log_up :: "int \<Rightarrow> rat \<Rightarrow> int" where
  "log_up b q = (if 1 < b \<and> of_int b \<le> q then 1 + log_up b (q / of_int b) else 0)"
  by pat_completeness auto
termination
  by (relation "measure (\<lambda>(b, q). nat \<lfloor>q\<rfloor>)") (simp_all only: wf_measure in_measure prod.case log_up_decreases)

function log_down :: "int \<Rightarrow> rat \<Rightarrow> int" where
  "log_down b q = (if 1 < b \<and> 0 < q \<and> q < 1 then log_down b (q * of_int b) - 1 else 0)"
  by pat_completeness auto
termination
  by (relation "measure (\<lambda>(b, q). nat \<lceil>1 / q\<rceil>)") (simp_all only: wf_measure in_measure prod.case log_down_decreases)

declare log_up.simps [simp del] log_down.simps [simp del]

definition floor_log :: "int \<Rightarrow> rat \<Rightarrow> int" where
  "floor_log b q = (if 1 \<le> q then log_up b q else log_down b q)"

definition round_half_even :: "rat \<Rightarrow> int" where
  "round_half_even t =
     (let f = \<lfloor>t\<rfloor>; r = t - of_int f
      in if r < 1 / 2 then f else if 1 / 2 < r then f + 1 else if even f then f else f + 1)"

text \<open>
  Rounding a positive real to the nearest double, ties to even: 53 significant bits,
  the exponent bounded below by \<open>-1022\<close> (subnormals), overflow to infinity.
\<close>

definition to_double_pos :: "rat \<Rightarrow> jsnum" where
  "to_double_pos q =
     (let e = max (floor_log 2 q) (- 1022);
          u = 2 powi (e - 52);
          r = of_int (round_half_even (q / u)) * u
      in if 2 ^ 1024 \<le> r then PosInfinity else Finite r)"

definition to_double :: "rat \<Rightarrow> jsnum" where
  "to_double q =
     (if q = 0 then Finite 0
      else if 0 < q then to_double_pos q
      else negate (to_double_pos (- q)))"

subsection \<open>\<^verbatim>\<open>Number::toString\<close>\<close>

function dec_digits :: "int \<Rightarrow> jsstring" where
  "dec_digits n = (if n < 10 then [nat (48 + n)] else dec_digits (n div 10) @ [nat (48 + n mod 10)])"
  by pat_completeness auto
termination
  by (relation "measure nat") auto

declare dec_digits.simps [simp del]

text \<open>
  ECMA-262 prints a positive double \<open>x\<close> with the digits of the integer \<open>s\<close> of the fewest
  digits \<open>k\<close> such that \<open>s * 10 ^ (n - k)\<close> rounds to \<open>x\<close>, the one closest to \<open>x\<close> when
  several do. \<open>candidates q k\<close> are the two \<open>k\<close>-digit decimals around \<open>q\<close>, the closer one
  first, as pairs \<open>(s, e)\<close> denoting \<open>s * 10 ^ e\<close>. Seventeen digits always identify a
  double; \<open>exact_decimal\<close>, the full decimal expansion of the double, closes the search.
\<close>

definition decimal_value :: "int \<times> int \<Rightarrow> rat" where
  "decimal_value c = of_int (fst c) * 10 powi (snd c)"

definition candidates :: "rat \<Rightarrow> nat \<Rightarrow> (int \<times> int) list" where
  "candidates q k =
     (let e = floor_log 10 q + 1 - int k;
          t = q * 10 powi (- e);
          s = round_half_even t;
          s' = (if of_int s \<le> t then \<lfloor>t\<rfloor> + 1 else \<lfloor>t\<rfloor>)
      in [(s, e), (s', e)])"

definition exact_decimal :: "rat \<Rightarrow> int \<times> int" where
  "exact_decimal q =
     (let z = max (floor_log 2 q) (- 1022) - 52;
          n = \<lfloor>q / 2 powi z\<rfloor>
      in if 0 \<le> z then (n * 2 ^ nat z, 0) else (n * 5 ^ nat (- z), z))"

function shortest_search :: "rat \<Rightarrow> nat \<Rightarrow> int \<times> int" where
  "shortest_search q k =
     (if 17 < k then exact_decimal q
      else case find (\<lambda>c. to_double (decimal_value c) = Finite q) (candidates q k) of
             Some c \<Rightarrow> c
           | None \<Rightarrow> shortest_search q (k + 1))"
  by pat_completeness auto
termination
  by (relation "measure (\<lambda>(q, k). 18 - k)") auto

declare shortest_search.simps [simp del]

definition shortest_decimal :: "rat \<Rightarrow> int \<times> int" where
  "shortest_decimal q = shortest_search q 1"

text \<open>Dropping the trailing zeros of \<open>s\<close>: \<open>s\<close> is then not divisible by ten.\<close>

function strip_zeros :: "int \<times> int \<Rightarrow> int \<times> int" where
  "strip_zeros (s, e) = (if 0 < s \<and> s mod 10 = 0 then strip_zeros (s div 10, e + 1) else (s, e))"
  by pat_completeness auto
termination
  by (relation "measure (\<lambda>(s, e). nat s)") auto

declare strip_zeros.simps [simp del]

text \<open>The four layouts of ECMA-262 (plain integer, decimal point inside, leading \<^verbatim>\<open>0.\<close>, exponent).\<close>

definition format_decimal :: "int \<times> int \<Rightarrow> jsstring" where
  "format_decimal c =
     (let (s, e) = strip_zeros c;
          ds = dec_digits s;
          k = int (length ds);
          n = k + e
      in if k \<le> n \<and> n \<le> 21 then ds @ replicate (nat (n - k)) 48
         else if 0 < n \<and> n \<le> 21 then take (nat n) ds @ [46] @ drop (nat n) ds
         else if - 6 < n \<and> n \<le> 0 then [48, 46] @ replicate (nat (- n)) 48 @ ds
         else (if k = 1 then ds else take 1 ds @ [46] @ drop 1 ds)
              @ [101] @ (if n - 1 < 0 then [45] else [43]) @ dec_digits \<bar>n - 1\<bar>)"

definition Number_toString :: "jsnum \<Rightarrow> jsstring" where
  "Number_toString x =
     (case x of
        Finite q \<Rightarrow>
          if q = 0 then js ''0''
          else if q < 0 then js ''-'' @ format_decimal (shortest_decimal (- q))
          else format_decimal (shortest_decimal q)
      | NegZero \<Rightarrow> js ''0''
      | PosInfinity \<Rightarrow> js ''Infinity''
      | NegInfinity \<Rightarrow> js ''-Infinity'')"


section \<open>JSON values, \<^verbatim>\<open>JSON.stringify\<close> and \<^verbatim>\<open>JSON.parse\<close>\<close>

text \<open>
  The values \<^verbatim>\<open>JSON.parse\<close> builds. An object is the list of its own properties in
  JavaScript's property order (array-index keys ascending, then the other keys in
  insertion order).
\<close>

datatype json =
    JNull
  | JBool bool
  | JNum jsnum
  | JStr jsstring
  | JArr "json list"
  | JObj "(jsstring \<times> json) list"

subsection \<open>\<^verbatim>\<open>JSON.stringify(value)\<close> and \<^verbatim>\<open>JSON.stringify(value, null, 2)\<close>\<close>

definition hex_digit :: "nat \<Rightarrow> nat" where
  "hex_digit d = (if d < 10 then 48 + d else 87 + d)"

definition unicode_escape :: "nat \<Rightarrow> jsstring" where
  "unicode_escape c =
     [92, 117, hex_digit (c div 4096 mod 16), hex_digit (c div 256 mod 16),
      hex_digit (c div 16 mod 16), hex_digit (c mod 16)]"

definition is_high_surrogate :: "nat \<Rightarrow> bool" where
  "is_high_surrogate c = (55296 \<le> c \<and> c \<le> 56319)"

definition is_low_surrogate :: "nat \<Rightarrow> bool" where
  "is_low_surrogate c = (56320 \<le> c \<and> c \<le> 57343)"

text \<open>
  \<^verbatim>\<open>QuoteJSONString\<close> without the enclosing quotes: the short escapes of the table in
  ECMA-262 (backspace, tab, line feed, form feed, carriage return, the quote and the
  backslash), \<^verbatim>\<open>\u00xx\<close> for the other control characters and \<^verbatim>\<open>\udxxx\<close> for a surrogate
  that is not half of a pair.
\<close>

definition short_escape :: "nat \<Rightarrow> nat option" where
  "short_escape c =
     (if c = 8 then Some 98
      else if c = 9 then Some 116
      else if c = 10 then Some 110
      else if c = 12 then Some 102
      else if c = 13 then Some 114
      else if c = 34 then Some 34
      else if c = 92 then Some 92
      else None)"

fun quote_chars :: "jsstring \<Rightarrow> jsstring" where
  "quote_chars [] = []"
| "quote_chars (c # cs) =
     (case short_escape c of
        Some e \<Rightarrow> [92, e] @ quote_chars cs
      | None \<Rightarrow>
          if c < 32 then unicode_escape c @ quote_chars cs
          else if is_high_surrogate c then
            (case cs of
               [] \<Rightarrow> unicode_escape c
             | d # ds \<Rightarrow>
                 if is_low_surrogate d then c # d # quote_chars ds
                 else unicode_escape c @ quote_chars cs)
          else if is_low_surrogate c then unicode_escape c @ quote_chars cs
          else c # quote_chars cs)"

definition quote :: "jsstring \<Rightarrow> jsstring" where
  "quote s = [34] @ quote_chars s @ [34]"

fun join :: "jsstring \<Rightarrow> jsstring list \<Rightarrow> jsstring" where
  "join sep [] = []"
| "join sep [x] = x"
| "join sep (x # y # ys) = x @ sep @ join sep (y # ys)"

text \<open>
  \<^verbatim>\<open>SerializeJSONProperty\<close> for a gap \<open>gap\<close> at the current indentation \<open>ind\<close>. A Number
  that is not finite is written \<^verbatim>\<open>null\<close>.
\<close>

fun serialize :: "jsstring \<Rightarrow> jsstring \<Rightarrow> json \<Rightarrow> jsstring" where
  "serialize gap ind JNull = js ''null''"
| "serialize gap ind (JBool b) = (if b then js ''true'' else js ''false'')"
| "serialize gap ind (JNum n) =
     (case n of PosInfinity \<Rightarrow> js ''null'' | NegInfinity \<Rightarrow> js ''null'' | _ \<Rightarrow> Number_toString n)"
| "serialize gap ind (JStr s) = quote s"
| "serialize gap ind (JArr xs) =
     (if xs = [] then js ''[]''
      else if gap = [] then js ''['' @ join (js '','') (map (serialize gap (ind @ gap)) xs) @ js '']''
      else js ''['' @ [10] @ (ind @ gap)
           @ join (js '','' @ [10] @ (ind @ gap)) (map (serialize gap (ind @ gap)) xs)
           @ [10] @ ind @ js '']'')"
| "serialize gap ind (JObj kvs) =
     (if kvs = [] then js ''{}''
      else if gap = [] then
        js ''{'' @ join (js '','')
          (map (\<lambda>(k, v). quote k @ js '':'' @ serialize gap (ind @ gap) v) kvs) @ js ''}''
      else js ''{'' @ [10] @ (ind @ gap)
           @ join (js '','' @ [10] @ (ind @ gap))
               (map (\<lambda>(k, v). quote k @ js '': '' @ serialize gap (ind @ gap) v) kvs)
           @ [10] @ ind @ js ''}'')"

definition JSON_stringify :: "json \<Rightarrow> jsstring" where
  "JSON_stringify v = serialize [] [] v"

definition JSON_stringify_2 :: "json \<Rightarrow> jsstring" where
  "JSON_stringify_2 v = serialize (js ''  '') [] v"

subsection \<open>\<^verbatim>\<open>JSON.parse(text)\<close>\<close>

definition is_ws :: "nat \<Rightarrow> bool" where
  "is_ws c = (c = 32 \<or> c = 9 \<or> c = 10 \<or> c = 13)"

fun skip_ws :: "jsstring \<Rightarrow> jsstring" where
  "skip_ws [] = []"
| "skip_ws (c # cs) = (if is_ws c then skip_ws cs else c # cs)"

definition is_digit :: "nat \<Rightarrow> bool" where
  "is_digit c = (48 \<le> c \<and> c \<le> 57)"

definition digits_value :: "jsstring \<Rightarrow> int" where
  "digits_value ds = foldl (\<lambda>a d. 10 * a + (int d - 48)) 0 ds"

definition hex_value :: "nat \<Rightarrow> nat option" where
  "hex_value c =
     (if 48 \<le> c \<and> c \<le> 57 then Some (c - 48)
      else if 97 \<le> c \<and> c \<le> 102 then Some (c - 87)
      else if 65 \<le> c \<and> c \<le> 70 then Some (c - 55)
      else None)"

definition unescape :: "nat \<Rightarrow> nat option" where
  "unescape e =
     (if e = 34 \<or> e = 92 \<or> e = 47 then Some e
      else if e = 98 then Some 8
      else if e = 102 then Some 12
      else if e = 110 then Some 10
      else if e = 114 then Some 13
      else if e = 116 then Some 9
      else None)"

definition cons_result :: "nat \<Rightarrow> (jsstring \<times> jsstring) option \<Rightarrow> (jsstring \<times> jsstring) option" where
  "cons_result c r = map_option (\<lambda>(s, rest). (c # s, rest)) r"

text \<open>The characters of a string literal after its opening quote, up to the closing one.\<close>

fun parse_string_chars :: "jsstring \<Rightarrow> (jsstring \<times> jsstring) option" where
  "parse_string_chars [] = None"
| "parse_string_chars (c # cs) =
     (if c = 34 then Some ([], cs)
      else if c = 92 then
        (case cs of
           [] \<Rightarrow> None
         | e # r \<Rightarrow>
             if e = 117 then
               (case r of
                  h1 # h2 # h3 # h4 # r' \<Rightarrow>
                    (case (hex_value h1, hex_value h2, hex_value h3, hex_value h4) of
                       (Some a, Some b, Some c', Some d) \<Rightarrow>
                         cons_result (4096 * a + 256 * b + 16 * c' + d) (parse_string_chars r')
                     | _ \<Rightarrow> None)
                | _ \<Rightarrow> None)
             else
               (case unescape e of
                  Some u \<Rightarrow> cons_result u (parse_string_chars r)
                | None \<Rightarrow> None))
      else if c < 32 then None
      else cons_result c (parse_string_chars cs))"

text \<open>
  A number literal: \<^verbatim>\<open>-? (0 | [1-9][0-9]*) (. [0-9]+)? ([eE] [+-]? [0-9]+)?\<close>. Its value is
  the double nearest to the decimal it spells.
\<close>

definition scan_digits :: "jsstring \<Rightarrow> jsstring \<times> jsstring" where
  "scan_digits cs = (takeWhile is_digit cs, dropWhile is_digit cs)"

fun scan_frac :: "jsstring \<Rightarrow> (jsstring \<times> jsstring) option" where
  "scan_frac [] = Some ([], [])"
| "scan_frac (c # r) =
     (if c = 46 then (if fst (scan_digits r) = [] then None else Some (scan_digits r))
      else Some ([], c # r))"

fun scan_exp :: "jsstring \<Rightarrow> (int \<times> jsstring) option" where
  "scan_exp [] = Some (0, [])"
| "scan_exp (c # r) =
     (if c = 101 \<or> c = 69 then
        (let r' = (if take 1 r = [45] \<or> take 1 r = [43] then drop 1 r else r);
             ed = fst (scan_digits r')
         in if ed = [] then None
            else Some (if take 1 r = [45] then - digits_value ed else digits_value ed,
                       snd (scan_digits r')))
      else Some (0, c # r))"

definition parse_number :: "jsstring \<Rightarrow> (jsnum \<times> jsstring) option" where
  "parse_number cs =
     (let neg = (take 1 cs = [45]);
          cs1 = (if neg then drop 1 cs else cs);
          ip = fst (scan_digits cs1)
      in if ip = [] \<or> (1 < length ip \<and> hd ip = 48) then None
         else case scan_frac (snd (scan_digits cs1)) of
                None \<Rightarrow> None
              | Some (fd, r2) \<Rightarrow>
                  (case scan_exp r2 of
                     None \<Rightarrow> None
                   | Some (ex, r5) \<Rightarrow>
                       Some ((if neg then negate else id)
                               (to_double (of_int (digits_value (ip @ fd)) * 10 powi (ex - int (length fd)))),
                             r5)))"

text \<open>
  \<^verbatim>\<open>CreateDataProperty\<close> on an object under construction: an existing key keeps its place
  and takes the new value; a new array-index key goes among the index keys, in ascending
  order; any other new key goes last.
\<close>

definition array_index :: "jsstring \<Rightarrow> int option" where
  "array_index k =
     (if k \<noteq> [] \<and> list_all is_digit k \<and> (length k = 1 \<or> hd k \<noteq> 48) \<and> digits_value k < 2 ^ 32 - 1
      then Some (digits_value k) else None)"

fun insert_index :: "int \<Rightarrow> jsstring \<Rightarrow> json \<Rightarrow> (jsstring \<times> json) list \<Rightarrow> (jsstring \<times> json) list" where
  "insert_index i k v [] = [(k, v)]"
| "insert_index i k v ((k', v') # kvs) =
     (case array_index k' of
        Some j \<Rightarrow> if j < i then (k', v') # insert_index i k v kvs else (k, v) # (k', v') # kvs
      | None \<Rightarrow> (k, v) # (k', v') # kvs)"

definition obj_put :: "(jsstring \<times> json) list \<Rightarrow> jsstring \<times> json \<Rightarrow> (jsstring \<times> json) list" where
  "obj_put kvs kv =
     (if fst kv \<in> fst ` set kvs then map (\<lambda>(k', v'). if k' = fst kv then (k', snd kv) else (k', v')) kvs
      else case array_index (fst kv) of
             Some i \<Rightarrow> insert_index i (fst kv) (snd kv) kvs
           | None \<Rightarrow> kvs @ [kv])"

definition object_of :: "(jsstring \<times> json) list \<Rightarrow> json" where
  "object_of kvs = JObj (foldl obj_put [] kvs)"

text \<open>
  The recursive-descent parser. Each function returns the value read and the rest of the
  text. The tests \<open>length r < length cs\<close> always succeed (a value is never empty); they
  make the termination of the recursion evident.
\<close>

function parse_value :: "jsstring \<Rightarrow> (json \<times> jsstring) option"
  and parse_elements :: "jsstring \<Rightarrow> (json list \<times> jsstring) option"
  and parse_members :: "jsstring \<Rightarrow> ((jsstring \<times> json) list \<times> jsstring) option"
where
  "parse_value [] = None"
| "parse_value (c # cs) =
     (if c = 91 then
        (if take 1 (skip_ws cs) = [93] then Some (JArr [], drop 1 (skip_ws cs))
         else map_option (\<lambda>(xs, r). (JArr xs, r)) (parse_elements (skip_ws cs)))
      else if c = 123 then
        (if take 1 (skip_ws cs) = [125] then Some (JObj [], drop 1 (skip_ws cs))
         else map_option (\<lambda>(kvs, r). (object_of kvs, r)) (parse_members (skip_ws cs)))
      else if c = 34 then map_option (\<lambda>(s, r). (JStr s, r)) (parse_string_chars cs)
      else if take 4 (c # cs) = js ''true'' then Some (JBool True, drop 4 (c # cs))
      else if take 5 (c # cs) = js ''false'' then Some (JBool False, drop 5 (c # cs))
      else if take 4 (c # cs) = js ''null'' then Some (JNull, drop 4 (c # cs))
      else map_option (\<lambda>(n, r). (JNum n, r)) (parse_number (c # cs)))"
| "parse_elements cs =
     (case parse_value cs of
        None \<Rightarrow> None
      | Some (v, r) \<Rightarrow>
          if take 1 (skip_ws r) = [93] then Some ([v], drop 1 (skip_ws r))
          else if take 1 (skip_ws r) = [44] \<and> length r < length cs then
            map_option (\<lambda>(vs, r'). (v # vs, r')) (parse_elements (skip_ws (drop 1 (skip_ws r))))
          else None)"
| "parse_members cs =
     (if take 1 cs \<noteq> [34] then None
      else case parse_string_chars (drop 1 cs) of
        None \<Rightarrow> None
      | Some (k, r0) \<Rightarrow>
          if take 1 (skip_ws r0) \<noteq> [58] \<or> \<not> length r0 < length cs then None
          else case parse_value (skip_ws (drop 1 (skip_ws r0))) of
            None \<Rightarrow> None
          | Some (v, r) \<Rightarrow>
              if take 1 (skip_ws r) = [125] then Some ([(k, v)], drop 1 (skip_ws r))
              else if take 1 (skip_ws r) = [44] \<and> length r < length cs then
                map_option (\<lambda>(kvs, r'). ((k, v) # kvs, r')) (parse_members (skip_ws (drop 1 (skip_ws r))))
              else None)"
  by pat_completeness auto
termination
proof (relation "measure (\<lambda>x. case x of
          Inl cs \<Rightarrow> 2 * length cs
        | Inr (Inl cs) \<Rightarrow> 2 * length cs + 1
        | Inr (Inr cs) \<Rightarrow> 2 * length cs + 1)", goal_cases)
  have ws: "length (skip_ws xs) \<le> length xs" for xs
    by (induction xs) auto
  have ws1: "length (skip_ws (drop 1 (skip_ws xs))) \<le> length xs" for xs
    using ws [of "drop 1 (skip_ws xs)"] ws [of xs] by simp
  {
    case 1
    show ?case by simp
  next
    case (2 c cs)
    show ?case using ws [of cs] by simp
  next
    case (3 c cs)
    show ?case using ws [of cs] by simp
  next
    case (4 cs)
    show ?case by simp
  next
    case (5 cs x2 v r)
    then show ?case using ws1 [of r] by simp
  next
    case (6 cs x2 k r0)
    then show ?case using ws1 [of r0] by simp
  next
    case (7 cs x2 k r0 x2a v r)
    then show ?case using ws1 [of r] by simp
  }
qed

definition parse_text :: "jsstring \<Rightarrow> json option" where
  "parse_text t =
     (case parse_value (skip_ws t) of
        None \<Rightarrow> None
      | Some (v, r) \<Rightarrow> if skip_ws r = [] then Some v else None)"


section \<open>Exceptions, property access, \<^verbatim>\<open>typeof\<close> and \<^verbatim>\<open>String\<close>\<close>

text \<open>
  Everything thrown in this program is an \<^verbatim>\<open>Error\<close> object, so both handlers read its
  \<^verbatim>\<open>message\<close> (the test \<^verbatim>\<open>error instanceof Error\<close> succeeds).
\<close>

datatype exn = SyntaxError jsstring | TypeError jsstring | FetchError jsstring | RangeError jsstring

fun message :: "exn \<Rightarrow> jsstring" where
  "message (SyntaxError m) = m"
| "message (TypeError m) = m"
| "message (FetchError m) = m"
| "message (RangeError m) = m"

text \<open>
  What a variable of the handlers can hold: \<^verbatim>\<open>undefined\<close>, a value built by \<^verbatim>\<open>JSON.parse\<close>,
  or an object of the host that the prototype chain leads to (a built-in function or
  prototype object), of a type \<open>'h\<close> left to the realm.
\<close>

datatype 'h jsval = Undefined | Json json | Host 'h

text \<open>
  The realm is the part of the host that differs between engines and versions and that
  the source does not fix: the message of the \<^verbatim>\<open>SyntaxError\<close> of \<^verbatim>\<open>JSON.parse\<close>, the
  objects behind the prototype chain, and the resources of \<^verbatim>\<open>JSON.stringify\<close>. \<open>inherited\<close> is
  the lookup of a property that a parsed value does not have itself (it goes to
  \<^verbatim>\<open>Object.prototype\<close>, \<^verbatim>\<open>Array.prototype\<close>, \<^verbatim>\<open>String.prototype\<close> and so on, where an accessor
  may throw), \<open>host_get\<close> the lookup on a host object. \<open>stringify_error gap v\<close> is the
  exception, if any, that \<^verbatim>\<open>JSON.stringify\<close> throws on the value \<open>v\<close> with the indentation
  \<open>gap\<close>: \<^verbatim>\<open>JSON.stringify\<close> descends into a value recursively and throws a \<^verbatim>\<open>RangeError\<close>
  when the value is nested deeper than the call stack allows, or when its text is longer
  than a string can be.
\<close>

record 'h realm =
  syntax_message :: "jsstring \<Rightarrow> jsstring"
  inherited :: "json \<Rightarrow> jsstring \<Rightarrow> exn + 'h jsval"
  host_get :: "'h \<Rightarrow> jsstring \<Rightarrow> exn + 'h jsval"
  host_typeof :: "'h \<Rightarrow> jsstring"
  host_String :: "'h \<Rightarrow> jsstring"
  host_stringify :: "'h \<Rightarrow> jsstring"
  stringify_error :: "jsstring \<Rightarrow> json \<Rightarrow> exn option"

text \<open>
  A call of \<^verbatim>\<open>JSON.stringify\<close> in the realm: it throws, or it returns the text that
  \<open>serialize\<close> defines.
\<close>

definition JSON_stringify_call :: "'h realm \<Rightarrow> jsstring \<Rightarrow> json \<Rightarrow> exn + jsstring" where
  "JSON_stringify_call H gap v =
     (case stringify_error H gap v of
        Some e \<Rightarrow> Inl e
      | None \<Rightarrow> Inr (serialize gap [] v))"

definition JSON_parse :: "'h realm \<Rightarrow> jsstring \<Rightarrow> exn + json" where
  "JSON_parse H t =
     (case parse_text t of
        None \<Rightarrow> Inl (SyntaxError (syntax_message H t))
      | Some v \<Rightarrow> Inr v)"

text \<open>
  The own properties of a parsed value: the members of an object, the elements and the
  \<^verbatim>\<open>length\<close> of an array, the characters and the \<^verbatim>\<open>length\<close> of a string.
\<close>

fun own_property :: "json \<Rightarrow> jsstring \<Rightarrow> json option" where
  "own_property (JObj kvs) k = map_of kvs k"
| "own_property (JArr xs) k =
     (case array_index k of
        Some i \<Rightarrow> if i < int (length xs) then Some (xs ! nat i) else None
      | None \<Rightarrow> if k = js ''length'' then Some (JNum (Finite (of_nat (length xs)))) else None)"
| "own_property (JStr s) k =
     (case array_index k of
        Some i \<Rightarrow> if i < int (length s) then Some (JStr [s ! nat i]) else None
      | None \<Rightarrow> if k = js ''length'' then Some (JNum (Finite (of_nat (length s)))) else None)"
| "own_property _ k = None"

text \<open>\<^verbatim>\<open>result[part]\<close>. Reading a property of \<^verbatim>\<open>undefined\<close> or \<^verbatim>\<open>null\<close> throws.\<close>

fun get_property :: "'h realm \<Rightarrow> 'h jsval \<Rightarrow> jsstring \<Rightarrow> exn + 'h jsval" where
  "get_property H Undefined k =
     Inl (TypeError (js ''Cannot read properties of undefined (reading '' @ [39] @ k @ [39] @ js '')''))"
| "get_property H (Json JNull) k =
     Inl (TypeError (js ''Cannot read properties of null (reading '' @ [39] @ k @ [39] @ js '')''))"
| "get_property H (Json v) k =
     (case own_property v k of
        Some x \<Rightarrow> Inr (Json x)
      | None \<Rightarrow> inherited H v k)"
| "get_property H (Host h) k = host_get H h k"

fun typeof :: "'h realm \<Rightarrow> 'h jsval \<Rightarrow> jsstring" where
  "typeof H Undefined = js ''undefined''"
| "typeof H (Json JNull) = js ''object''"
| "typeof H (Json (JBool b)) = js ''boolean''"
| "typeof H (Json (JNum n)) = js ''number''"
| "typeof H (Json (JStr s)) = js ''string''"
| "typeof H (Json (JArr xs)) = js ''object''"
| "typeof H (Json (JObj kvs)) = js ''object''"
| "typeof H (Host h) = host_typeof H h"

text \<open>
  \<^verbatim>\<open>String(value)\<close>. An array prints its elements joined by commas (\<^verbatim>\<open>null\<close> as the empty
  string), an object as \<^verbatim>\<open>[object Object]\<close>.
\<close>

fun String_json :: "json \<Rightarrow> jsstring" where
  "String_json JNull = js ''null''"
| "String_json (JBool b) = (if b then js ''true'' else js ''false'')"
| "String_json (JNum n) = Number_toString n"
| "String_json (JStr s) = s"
| "String_json (JArr xs) = join (js '','') (map (\<lambda>x. if x = JNull then [] else String_json x) xs)"
| "String_json (JObj kvs) = js ''[object Object]''"

fun String_js :: "'h realm \<Rightarrow> 'h jsval \<Rightarrow> jsstring" where
  "String_js H Undefined = js ''undefined''"
| "String_js H (Json v) = String_json v"
| "String_js H (Host h) = host_String H h"

text \<open>\<^verbatim>\<open>JSON.stringify(result, null, 2)\<close> on a value whose \<^verbatim>\<open>typeof\<close> is \<^verbatim>\<open>object\<close>.\<close>

fun stringify_2 :: "'h realm \<Rightarrow> 'h jsval \<Rightarrow> exn + jsstring" where
  "stringify_2 H (Json v) = JSON_stringify_call H (js ''  '') v"
| "stringify_2 H (Host h) = Inr (host_stringify H h)"
| "stringify_2 H Undefined = Inr (js ''undefined'')"

text \<open>\<^verbatim>\<open>path.split(".")\<close>\<close>

fun split_dot :: "jsstring \<Rightarrow> jsstring list" where
  "split_dot [] = [[]]"
| "split_dot (c # cs) =
     (if c = 46 then [] # split_dot cs
      else case split_dot cs of
             [] \<Rightarrow> [[c]]
           | p # ps \<Rightarrow> (c # p) # ps)"

section \<open>node-fetch\<close>

text \<open>
  What \<^verbatim>\<open>fetch\<close> resolves to: the status line, the header entries as
  \<^verbatim>\<open>response.headers.entries()\<close> lists them, the URL and the body, read completely and
  decoded as text.
\<close>

record Response =
  status :: int
  statusText :: jsstring
  entries :: "(jsstring \<times> jsstring) list"
  resp_url :: jsstring
  body_text :: jsstring

text \<open>
  The body of a response is a stream that can be read once. node-fetch keeps a flag
  \<^verbatim>\<open>disturbed\<close> per response; \<^verbatim>\<open>json()\<close> and \<^verbatim>\<open>text()\<close> both start with \<^verbatim>\<open>consumeBody\<close>,
  which rejects with \<^verbatim>\<open>TypeError("body used already for: " + url)\<close> when the flag is
  set and sets it otherwise. Both functions take the flag and return it with their result.
  \<^verbatim>\<open>json()\<close> wraps a parse failure in a \<^verbatim>\<open>FetchError\<close>.
\<close>

definition consumeBody :: "Response \<Rightarrow> bool \<Rightarrow> (exn + jsstring) \<times> bool" where
  "consumeBody r disturbed =
     (if disturbed then (Inl (TypeError (js ''body used already for: '' @ resp_url r)), disturbed)
      else (Inr (body_text r), True))"

definition response_json :: "'h realm \<Rightarrow> Response \<Rightarrow> bool \<Rightarrow> (exn + json) \<times> bool" where
  "response_json H r disturbed =
     (case consumeBody r disturbed of
        (Inl e, d) \<Rightarrow> (Inl e, d)
      | (Inr t, d) \<Rightarrow>
          (case JSON_parse H t of
             Inl err \<Rightarrow>
               (Inl (FetchError (js ''invalid json response body at '' @ resp_url r
                                 @ js '' reason: '' @ message err)), d)
           | Inr v \<Rightarrow> (Inr v, d)))"

definition response_text :: "Response \<Rightarrow> bool \<Rightarrow> (exn + jsstring) \<times> bool" where
  "response_text r disturbed = consumeBody r disturbed"

section \<open>The \<^verbatim>\<open>curl\<close> tool\<close>

datatype HttpMethod = GET | POST | PUT | DELETE | PATCH

text \<open>
  The arguments after schema validation. \<open>headers\<close> and \<open>body\<close> are optional: \<open>None\<close> is
  \<^verbatim>\<open>undefined\<close>. A body comes from the caller's JSON arguments, so it is a JSON value.
\<close>

record CurlRequest =
  url :: jsstring
  req_method :: HttpMethod
  headers :: "(jsstring \<times> jsstring) list option"
  body :: "json option"
  timeout :: rat

record RequestInit =
  init_method :: HttpMethod
  init_headers :: "(jsstring \<times> jsstring) list"
  init_body :: "jsstring option"
  init_timeout :: rat

text \<open>What a tool returns: \<^verbatim>\<open>{ isError?, content: [{ type: "text", text }] }\<close>.\<close>

record ToolResult =
  isError :: bool
  text_content :: jsstring

text \<open>
  Lines 57 to 69: the options of the outbound call. An object is truthy even when empty,
  so \<^verbatim>\<open>headers || {...}\<close> takes the default only when \<open>headers\<close> is \<^verbatim>\<open>undefined\<close>.
  \<^verbatim>\<open>JSON.stringify(body)\<close> on line 68 is a call of the host like any other: \<open>body_error\<close> is
  what it throws, and then the options are never completed and no call goes out;
  \<open>curl_options\<close> are the options when it returns.
\<close>

definition default_headers :: "(jsstring \<times> jsstring) list" where
  "default_headers =
     [(js ''Content-Type'', js ''application/json''), (js ''Accept'', js ''application/json'')]"

definition curl_options :: "CurlRequest \<Rightarrow> RequestInit" where
  "curl_options req =
     \<lparr> init_method = req_method req,
       init_headers = (case headers req of Some h \<Rightarrow> h | None \<Rightarrow> default_headers),
       init_body =
         (if req_method req \<noteq> GET \<and> body req \<noteq> None then
            (case the (body req) of JStr s \<Rightarrow> Some s | v \<Rightarrow> Some (JSON_stringify v))
          else None),
       init_timeout = timeout req \<rparr>"

definition body_error :: "'h realm \<Rightarrow> CurlRequest \<Rightarrow> exn option" where
  "body_error H req =
     (if req_method req \<noteq> GET \<and> body req \<noteq> None then
        (case the (body req) of JStr s \<Rightarrow> None | v \<Rightarrow> stringify_error H [] v)
      else None)"

text \<open>
  Lines 86 to 100: the \<^verbatim>\<open>CurlResponse\<close> object and its serialization. \<open>curl_success\<close> is
  the result when \<^verbatim>\<open>JSON.stringify(result, null, 2)\<close> on line 97 returns, \<open>curl_result\<close> the
  outcome of lines 86 to 100 in the realm.
\<close>

definition CurlResponse :: "Response \<Rightarrow> jsstring \<Rightarrow> json" where
  "CurlResponse response responseText =
     JObj [(js ''status'', JNum (Finite (of_int (status response)))),
           (js ''statusText'', JStr (statusText response)),
           (js ''headers'', object_of (map (\<lambda>(k, v). (k, JStr v)) (entries response))),
           (js ''data'', JStr responseText)]"

definition curl_success :: "Response \<Rightarrow> jsstring \<Rightarrow> ToolResult" where
  "curl_success response responseText =
     \<lparr> isError = False, text_content = JSON_stringify_2 (CurlResponse response responseText) \<rparr>"

definition curl_result :: "'h realm \<Rightarrow> Response \<Rightarrow> jsstring \<Rightarrow> exn + ToolResult" where
  "curl_result H response responseText =
     (case JSON_stringify_call H (js ''  '') (CurlResponse response responseText) of
        Inl e \<Rightarrow> Inl e
      | Inr t \<Rightarrow> Inr \<lparr> isError = False, text_content = t \<rparr>)"

text \<open>
  The inner \<^verbatim>\<open>try\<close> (lines 77 to 83): \<^verbatim>\<open>response.json()\<close> and then
  \<^verbatim>\<open>JSON.stringify(responseData, null, 2)\<close>; when either throws, \<^verbatim>\<open>response.text()\<close> on the
  same response. \<open>Inl\<close> is an exception that leaves the inner \<^verbatim>\<open>catch\<close>.
\<close>

definition response_data :: "'h realm \<Rightarrow> Response \<Rightarrow> exn + jsstring" where
  "response_data H response =
     (case response_json H response False of
        (Inr responseData, d) \<Rightarrow>
          (case JSON_stringify_call H (js ''  '') responseData of
             Inr responseText \<Rightarrow> Inr responseText
           | Inl e \<Rightarrow> fst (response_text response d))
      | (Inl e, d) \<Rightarrow> fst (response_text response d))"

text \<open>
  The body of the outer \<^verbatim>\<open>try\<close> (lines 55 to 100): \<open>Inl\<close> is an exception that reaches the
  outer \<^verbatim>\<open>catch\<close>.
\<close>

definition curl_try ::
  "'h realm \<Rightarrow> (jsstring \<Rightarrow> RequestInit \<Rightarrow> exn + Response) \<Rightarrow> CurlRequest \<Rightarrow> exn + ToolResult" where
  "curl_try H fetch req =
     (case body_error H req of
        Some e \<Rightarrow> Inl e
      | None \<Rightarrow>
          (case fetch (url req) (curl_options req) of
             Inl e \<Rightarrow> Inl e
           | Inr response \<Rightarrow>
               (case response_data H response of
                  Inl e \<Rightarrow> Inl e
                | Inr responseText \<Rightarrow> curl_result H response responseText)))"

definition curl_handler ::
  "'h realm \<Rightarrow> (jsstring \<Rightarrow> RequestInit \<Rightarrow> exn + Response) \<Rightarrow> CurlRequest \<Rightarrow> ToolResult" where
  "curl_handler H fetch req =
     (case curl_try H fetch req of
        Inr result \<Rightarrow> result
      | Inl error \<Rightarrow>
          \<lparr> isError = True, text_content = js ''Error making request: '' @ message error \<rparr>)"

section \<open>The \<^verbatim>\<open>parse-json\<close> tool\<close>

text \<open>Lines 135 to 138: the loop over the parts of the path.\<close>

fun traverse :: "'h realm \<Rightarrow> 'h jsval \<Rightarrow> jsstring list \<Rightarrow> exn + 'h jsval" where
  "traverse H result [] = Inr result"
| "traverse H result (part # parts) =
     (if result = Json JNull \<or> result = Undefined then Inr result
      else case get_property H result part of
             Inl e \<Rightarrow> Inl e
           | Inr v \<Rightarrow> traverse H v parts)"

text \<open>
  Lines 130 to 138: the value the path leads to. \<^verbatim>\<open>if (path)\<close> skips the traversal for an
  omitted and for an empty path. \<open>Inl\<close> is an exception that the inner \<^verbatim>\<open>catch\<close> of line 139
  receives.
\<close>

definition path_result :: "'h realm \<Rightarrow> json \<Rightarrow> jsstring option \<Rightarrow> exn + 'h jsval" where
  "path_result H data path =
     (case path of
        None \<Rightarrow> Inr (Json data)
      | Some p \<Rightarrow> if p = [] then Inr (Json data) else traverse H (Json data) (split_dot p))"

text \<open>Line 157: the text of the result. \<open>Inl\<close> is what \<^verbatim>\<open>JSON.stringify\<close> throws.\<close>

definition result_text :: "'h realm \<Rightarrow> 'h jsval \<Rightarrow> exn + jsstring" where
  "result_text H result =
     (if typeof H result = js ''object'' then stringify_2 H result else Inr (String_js H result))"

text \<open>
  The body of the outer \<^verbatim>\<open>try\<close> (lines 127 to 160): \<open>Inl\<close> is an exception that reaches the
  outer \<^verbatim>\<open>catch\<close>, which \<^verbatim>\<open>JSON.parse\<close> on line 127 and \<^verbatim>\<open>JSON.stringify\<close> on line 157 can
  throw. The inner \<^verbatim>\<open>catch\<close> returns its own failure; the template on line 146 prints an
  omitted path as \<^verbatim>\<open>undefined\<close>.
\<close>

definition parse_json_try :: "'h realm \<Rightarrow> jsstring \<Rightarrow> jsstring option \<Rightarrow> exn + ToolResult" where
  "parse_json_try H json path =
     (case JSON_parse H json of
        Inl e \<Rightarrow> Inl e
      | Inr data \<Rightarrow>
          (case path_result H data path of
             Inl e \<Rightarrow>
               Inr \<lparr> isError = True,
                     text_content = js ''Error extracting data with path '' @ [34]
                                    @ (case path of None \<Rightarrow> js ''undefined'' | Some p \<Rightarrow> p) @ [34]
                                    @ js '': '' @ message e \<rparr>
           | Inr result \<Rightarrow>
               (case result_text H result of
                  Inl e \<Rightarrow> Inl e
                | Inr t \<Rightarrow> Inr \<lparr> isError = False, text_content = t \<rparr>)))"

text \<open>Lines 125 to 173.\<close>

definition parse_json_handler :: "'h realm \<Rightarrow> jsstring \<Rightarrow> jsstring option \<Rightarrow> ToolResult" where
  "parse_json_handler H json path =
     (case parse_json_try H json path of
        Inr result \<Rightarrow> result
      | Inl error \<Rightarrow> \<lparr> isError = True, text_content = js ''Error parsing JSON: '' @ message error \<rparr>)"

text \<open>
  Realms to run the handlers in. \<open>bare_realm\<close> has nothing behind the prototype
  chain. \<open>standard_realm\<close> has the two facts about it that hold in every ECMAScript 2015
  realm and that a path can reach: \<^verbatim>\<open>constructor\<close> is inherited by every value and is a
  built-in function, and a built-in function inherits from \<^verbatim>\<open>Function.prototype\<close> the
  accessors \<^verbatim>\<open>caller\<close> and \<^verbatim>\<open>arguments\<close>, whose getter throws a \<^verbatim>\<open>TypeError\<close>. The other
  built-in properties are left out of it.

  In both, \<^verbatim>\<open>JSON.stringify\<close> throws on a value nested deeper than a limit, with the
  message of V8. The limit is a few thousand levels in Node.js with its default stack and
  differs with the host and the stack size; \<open>4000\<close> stands for it.
\<close>

fun depth :: "json \<Rightarrow> nat" where
  "depth (JArr xs) = Suc (foldr max (map depth xs) 0)"
| "depth (JObj kvs) = Suc (foldr max (map (\<lambda>kv. depth (snd kv)) kvs) 0)"
| "depth _ = 0"

definition stack_message :: jsstring where
  "stack_message = js ''Maximum call stack size exceeded''"

definition stack_overflow :: "nat \<Rightarrow> jsstring \<Rightarrow> json \<Rightarrow> exn option" where
  "stack_overflow limit gap v = (if limit < depth v then Some (RangeError stack_message) else None)"

datatype builtin = Constructor jsstring

definition restricted_message :: jsstring where
  "restricted_message =
     [39] @ js ''caller'' @ [39] @ js '', '' @ [39] @ js ''callee'' @ [39] @ js '', and '' @ [39]
     @ js ''arguments'' @ [39]
     @ js '' properties may not be accessed on strict mode functions or the arguments objects for calls to them''"

definition bare_realm :: "builtin realm" where
  "bare_realm =
     \<lparr> syntax_message = (\<lambda>t. js ''Unexpected token''),
       inherited = (\<lambda>v k. Inr Undefined),
       host_get = (\<lambda>h k. Inr Undefined),
       host_typeof = (\<lambda>h. js ''function''),
       host_String = (\<lambda>h. js ''function () { [native code] }''),
       host_stringify = (\<lambda>h. js ''{}''),
       stringify_error = stack_overflow 4000 \<rparr>"

definition constructor_name :: "json \<Rightarrow> jsstring" where
  "constructor_name v =
     (case v of
        JNull \<Rightarrow> []
      | JBool b \<Rightarrow> js ''Boolean''
      | JNum n \<Rightarrow> js ''Number''
      | JStr s \<Rightarrow> js ''String''
      | JArr xs \<Rightarrow> js ''Array''
      | JObj kvs \<Rightarrow> js ''Object'')"

definition standard_realm :: "builtin realm" where
  "standard_realm =
     \<lparr> syntax_message = (\<lambda>t. js ''Unexpected token''),
       inherited = (\<lambda>v k. if k = js ''constructor'' then Inr (Host (Constructor (constructor_name v)))
                           else Inr Undefined),
       host_get = (\<lambda>h k. if k = js ''caller'' \<or> k = js ''arguments'' then Inl (TypeError restricted_message)
                          else if k = js ''constructor'' then Inr (Host (Constructor (js ''Function'')))
                          else if k = js ''name'' then (case h of Constructor n \<Rightarrow> Inr (Json (JStr n)))
                          else Inr Undefined),
       host_typeof = (\<lambda>h. js ''function''),
       host_String = (\<lambda>h. case h of Constructor n \<Rightarrow> js ''function '' @ n @ js ''() { [native code] }''),
       host_stringify = (\<lambda>h. js ''{}''),
       stringify_error = stack_overflow 4000 \<rparr>"

section \<open>Predicates and examples for the claims\<close>







text \<open>Requests, responses and a document for the examples.\<close>

definition post_null :: CurlRequest where
  "post_null = \<lparr> url = js ''http://h/'', req_method = POST, headers = None, body = Some JNull, timeout = 10000 \<rparr>"

definition page :: Response where
  "page = \<lparr> status = 404, statusText = js ''Not Found'', entries = [(js ''content-type'', js ''text/html'')],
            resp_url = js ''http://h/'', body_text = js ''hello'' \<rparr>"

definition error_page :: Response where
  "error_page = \<lparr> status = 500, statusText = js ''Internal Server Error'', entries = [],
            resp_url = js ''http://h/'', body_text = js ''<html>'' \<rparr>"

definition get_page :: CurlRequest where
  "get_page = \<lparr> url = js ''http://h/'', req_method = GET, headers = None, body = None, timeout = 10000 \<rparr>"




text \<open>
  \<open>nested n\<close> is the empty array inside \<open>n\<close> arrays, \<open>nested_text n\<close> its text
  \<^verbatim>\<open>[[...[]...]]\<close>.
\<close>

fun nested :: "nat \<Rightarrow> json" where
  "nested 0 = JArr []"
| "nested (Suc n) = JArr [nested n]"

definition nested_text :: "nat \<Rightarrow> jsstring" where
  "nested_text n = replicate (Suc n) 91 @ replicate (Suc n) 93"


definition doc_a_b_42 :: jsstring where
  "doc_a_b_42 = js ''{'' @ quote (js ''a'') @ js '':{'' @ quote (js ''b'') @ js '':42}}''"

section \<open>Facts about the host model\<close>

subsection \<open>Logarithms and rounding\<close>

lemma log_up_bounds:
  "1 < b \<Longrightarrow> 1 \<le> q \<Longrightarrow>
     of_int b powi (log_up b q) \<le> q \<and> q < of_int b powi (log_up b q + 1)"
proof (induction b q rule: log_up.induct)
  case (1 b q)
  define B :: rat where "B = of_int b"
  have B: "1 < B" using 1(2) by (simp add: B_def)
  show ?case
  proof (cases "B \<le> q")
    case True
    define l where "l = log_up b (q / B)"
    have "1 \<le> q / B" using True B by (simp add: le_divide_eq)
    then have IH: "B powi l \<le> q / B \<and> q / B < B powi (l + 1)"
      using 1 True unfolding B_def l_def by simp
    have eq: "log_up b q = l + 1"
      using True 1(2) unfolding B_def l_def by (subst log_up.simps) simp
    have s1: "B powi (l + 1) = B powi l * B"
      using B by (intro power_int_add_1) auto
    have s2: "B powi (l + 1 + 1) = B powi (l + 1) * B"
      using B by (intro power_int_add_1) auto
    have "B powi l * B \<le> q" using IH B by (simp add: le_divide_eq)
    moreover have "q < B powi (l + 1) * B" using IH B by (simp add: divide_less_eq)
    ultimately show ?thesis unfolding eq B_def [symmetric] s2 s1 by simp
  next
    case False
    then have "log_up b q = 0" unfolding B_def by (subst log_up.simps) simp
    then show ?thesis using False 1(3) unfolding B_def by simp
  qed
qed

lemma log_down_bounds:
  "1 < b \<Longrightarrow> 0 < q \<Longrightarrow> q < 1 \<Longrightarrow>
     of_int b powi (log_down b q) \<le> q \<and> q < of_int b powi (log_down b q + 1)"
proof (induction b q rule: log_down.induct)
  case (1 b q)
  define B :: rat where "B = of_int b"
  have B: "1 < B" using 1(2) by (simp add: B_def)
  define l where "l = log_down b (q * B)"
  have eq: "log_down b q = l - 1"
    using 1(2-4) unfolding B_def l_def by (subst log_down.simps) simp
  have s1: "B powi l = B powi (l - 1) * B"
    using B power_int_add_1 [of B "l - 1"] by simp
  have pos: "0 < q * B" using 1(3) B by simp
  show ?case
  proof (cases "q * B < 1")
    case True
    then have IH: "B powi l \<le> q * B \<and> q * B < B powi (l + 1)"
      using 1 pos unfolding B_def l_def by simp
    have s2: "B powi (l + 1) = B powi l * B"
      using B by (intro power_int_add_1) auto
    have "B powi (l - 1) \<le> q" using IH B unfolding s1 by simp
    moreover have "q < B powi l" using IH B unfolding s2 by simp
    ultimately show ?thesis unfolding eq B_def [symmetric] by simp
  next
    case False
    then have l0: "l = 0" unfolding l_def B_def by (subst log_down.simps) simp
    have "B powi (- 1) = 1 / B" by (simp add: power_int_minus field_simps)
    moreover have "1 / B \<le> q" using False B by (simp add: divide_le_eq)
    ultimately show ?thesis using 1(4) unfolding eq l0 B_def [symmetric] by simp
  qed
qed

lemma floor_log_bounds:
  assumes "1 < b" "0 < q"
  shows "of_int b powi (floor_log b q) \<le> q" and "q < of_int b powi (floor_log b q + 1)"
  using assms log_up_bounds [of b q] log_down_bounds [of b q]
  by (auto simp: floor_log_def)

lemma floor_log_unique:
  assumes "1 < b" "of_int b powi e \<le> q" "q < of_int b powi (e + 1)"
  shows "floor_log b q = e"
proof -
  define B :: rat where "B = of_int b"
  have B: "1 < B" using assms(1) by (simp add: B_def)
  have "0 < B powi e" using B by (intro zero_less_power_int) auto
  then have q: "0 < q" using assms(2) unfolding B_def by linarith
  define f where "f = floor_log b q"
  have f1: "B powi f \<le> q" and f2: "q < B powi (f + 1)"
    using floor_log_bounds [OF assms(1) q] unfolding f_def B_def by auto
  have "\<not> f < e"
  proof
    assume "f < e"
    then have "B powi (f + 1) \<le> B powi e" using B by (intro power_int_increasing) auto
    then show False using f2 assms(2) unfolding B_def by linarith
  qed
  moreover have "\<not> e < f"
  proof
    assume "e < f"
    then have "B powi (e + 1) \<le> B powi f" using B by (intro power_int_increasing) auto
    then show False using f1 assms(3) unfolding B_def by linarith
  qed
  ultimately show ?thesis unfolding f_def by simp
qed

lemma round_half_even_of_int [simp]: "round_half_even (of_int m) = m"
  by (simp add: round_half_even_def)

lemma floor_numeral_div [simp]: "\<lfloor>(numeral a :: rat) / numeral b\<rfloor> = numeral a div numeral b"
  using floor_divide_of_int_eq [of "numeral a" "numeral b", where ?'a = rat] by simp

lemma replicate_numeral [simp]: "replicate (numeral k) x = x # replicate (pred_numeral k) x"
  by (simp add: numeral_eq_Suc)

lemma to_double_pos_eval:
  assumes "2 powi e \<le> q" "q < 2 powi (e + 1)"
  shows "to_double_pos q =
     (if (2::rat) ^ 1024 \<le> of_int (round_half_even (q / 2 powi (max e (- 1022) - 52))) * 2 powi (max e (- 1022) - 52)
      then PosInfinity
      else Finite (of_int (round_half_even (q / 2 powi (max e (- 1022) - 52))) * 2 powi (max e (- 1022) - 52)))"
proof -
  have "floor_log 2 q = e"
    using assms by (intro floor_log_unique) auto
  then show ?thesis unfolding to_double_pos_def Let_def by (simp only:)
qed

lemma to_double_of_int:
  assumes "0 \<le> n" "n < 2 ^ 53"
  shows "to_double (of_int n) = Finite (of_int n)"
proof (cases "n = 0")
  case True
  then show ?thesis by (simp add: to_double_def)
next
  case False
  then have pos: "0 < n" using assms by simp
  define q :: rat where "q = of_int n"
  have q0: "0 < q" using pos unfolding q_def by simp
  have "(of_int n :: rat) < of_int (2 ^ 53)" using assms(2) by (simp only: of_int_less_iff)
  then have q53: "q < 2 powi 53" unfolding q_def by simp
  have q1: "2 powi 0 \<le> q" using pos unfolding q_def by simp
  define e where "e = floor_log 2 q"
  have e1: "2 powi e \<le> q" and e2: "q < 2 powi (e + 1)"
    using floor_log_bounds [of 2 q] q0 unfolding e_def by auto
  have "\<not> e + 1 \<le> 0"
  proof
    assume "e + 1 \<le> 0"
    then have "(2::rat) powi (e + 1) \<le> 2 powi 0" by (intro power_int_increasing) auto
    then show False using e2 q1 by linarith
  qed
  then have e0: "0 \<le> e" by simp
  have "\<not> 53 \<le> e"
  proof
    assume "53 \<le> e"
    then have "(2::rat) powi 53 \<le> 2 powi e" by (intro power_int_increasing) auto
    then show False using e1 q53 by linarith
  qed
  then have e52: "e \<le> 52" by simp
  define k where "k = nat (52 - e)"
  have z: "max e (- 1022) - 52 = - int k" using e0 e52 unfolding k_def by simp
  have p: "(2::rat) powi (- int k) = 1 / 2 ^ k" by (simp add: power_int_minus field_simps)
  have d: "q / (1 / 2 ^ k) = of_int (n * 2 ^ k)" unfolding q_def by simp
  have "of_int (round_half_even (q / (1 / 2 ^ k))) * (1 / 2 ^ k) = q"
    unfolding d round_half_even_of_int by (simp add: q_def)
  then have r: "of_int (round_half_even (q / 2 powi (max e (- 1022) - 52))) * 2 powi (max e (- 1022) - 52) = q"
    unfolding z p .
  have "(2::rat) powi 53 \<le> 2 ^ 1024" by simp
  then have "\<not> (2::rat) ^ 1024 \<le> q" using q53 by linarith
  then have "to_double_pos q = Finite q"
    unfolding to_double_pos_eval [OF e1 e2] r by (simp only: if_False)
  then show ?thesis using q0 unfolding q_def to_double_def by simp
qed

lemma to_double_numeral [simp]:
  "(numeral k :: int) < 2 ^ 53 \<Longrightarrow> to_double (numeral k) = Finite (numeral k)"
  using to_double_of_int [of "numeral k"] by simp

lemmas num_eval = Number_toString_def shortest_decimal_def shortest_search.simps candidates_def
  floor_log_def log_up.simps log_down.simps round_half_even_def
  decimal_value_def format_decimal_def dec_digits.simps strip_zeros.simps Let_def js_def power_int_minus
lemma Number_toString_42: "Number_toString (Finite 42) = js ''42''" by (simp add: num_eval)
lemma Number_toString_200: "Number_toString (Finite 200) = js ''200''" by (simp add: num_eval)
lemma Number_toString_404: "Number_toString (Finite 404) = js ''404''" by (simp add: num_eval)

subsection \<open>Evaluating the parser; the traversal loop\<close>

lemma parse_hello: "parse_text (js ''hello'') = None"
  by (simp add: parse_text_def js_def is_ws_def parse_number_def scan_digits_def is_digit_def)

lemma parse_not_json: "parse_text (js ''{not json'') = None"
  by (simp add: parse_text_def js_def is_ws_def)

lemma parse_empty_object: "parse_text (js ''{}'') = Some (JObj [])"
  by (simp add: parse_text_def js_def is_ws_def)

lemma split_constructor_caller:
  "split_dot (js ''constructor.caller'') = [js ''constructor'', js ''caller'']"
  by (simp add: js_def)

lemma traverse_stops:
  "traverse H (Json JNull) parts = Inr (Json JNull)" "traverse H Undefined parts = Inr Undefined"
  by (cases parts; simp)+

lemma traverse_append:
  "traverse H v (ps @ qs) = (case traverse H v ps of Inl e \<Rightarrow> Inl e | Inr r \<Rightarrow> traverse H r qs)"
proof (induction ps arbitrary: v)
  case Nil
  show ?case by simp
next
  case (Cons p ps)
  show ?case
  proof (cases "v = Json JNull \<or> v = Undefined")
    case True
    then show ?thesis by (auto simp: traverse_stops)
  next
    case False
    then show ?thesis by (simp add: Cons.IH split: sum.splits)
  qed
qed

lemma parse_html: "parse_text (js ''<html>'') = None"
  by (simp add: parse_text_def js_def is_ws_def parse_number_def scan_digits_def is_digit_def)

subsection \<open>String literals read back\<close>






subsection \<open>Number literals read back\<close>



















subsection \<open>Doubles are fixed points of the rounding\<close>











subsection \<open>The text of a Number reads back as the Number\<close>








subsection \<open>Objects in property order\<close>














subsection \<open>What \<^verbatim>\<open>JSON.parse\<close> builds is well formed\<close>

lemma negate_negate [simp]: "negate (negate x) = x"
  by (cases x) simp_all





subsection \<open>The pretty-printed text reads back as the value\<close>

















subsection \<open>A number literal beyond the range of a double\<close>




subsection \<open>Negative zero; the text of a value whose numbers are not plain\<close>









subsection \<open>Deeply nested values\<close>

lemma depth_nested: "depth (nested n) = Suc n"
  by (induction n) simp_all

lemma typeof_nested: "typeof H (Json (nested n)) = js ''object''"
  by (cases n) simp_all

lemma parse_value_nested:
  "parse_value (replicate (Suc n) 91 @ replicate (Suc n) 93 @ rest) = Some (nested n, rest)"
proof (induction n arbitrary: rest)
  case 0
  show ?case by (simp add: is_ws_def)
next
  case (Suc n)
  define cs where "cs = replicate (Suc n) 91 @ replicate (Suc n) 93 @ 93 # rest"
  have cs: "parse_value cs = Some (nested n, 93 # rest)"
    unfolding cs_def by (rule Suc.IH)
  have sk: "skip_ws cs = cs" "take 1 cs = [91]"
    unfolding cs_def by (simp_all add: is_ws_def)
  have e: "parse_elements cs = Some ([nested n], rest)"
    by (subst parse_elements.simps) (simp add: cs is_ws_def)
  have "replicate (Suc (Suc n)) 91 @ replicate (Suc (Suc n)) 93 @ rest = 91 # cs"
    unfolding cs_def by (simp add: replicate_append_same)
  moreover have "parse_value (91 # cs) = Some (nested (Suc n), rest)"
    using sk e by (simp del: parse_elements.simps)
  ultimately show ?case by simp
qed

lemma parse_nested_text: "parse_text (nested_text n) = Some (nested n)"
  using parse_value_nested [of n "[]"]
  by (simp add: parse_text_def nested_text_def is_ws_def)


lemma standard_realm_small: "depth v \<le> 4000 \<Longrightarrow> stringify_error standard_realm gap v = None"
  by (simp add: standard_realm_def stack_overflow_def)


lemma standard_realm_deep: "stringify_error standard_realm gap (nested 4999) = Some (RangeError stack_message)"
  by (simp add: standard_realm_def stack_overflow_def depth_nested)


subsection \<open>The handlers, case by case\<close>


lemma parse_json_handler_parsed:
  assumes "parse_text json = Some data"
  shows "parse_json_handler H json path =
     (case path_result H data path of
        Inl e \<Rightarrow>
          \<lparr> isError = True,
            text_content = js ''Error extracting data with path '' @ [34]
                           @ (case path of None \<Rightarrow> js ''undefined'' | Some p \<Rightarrow> p) @ [34]
                           @ js '': '' @ message e \<rparr>
      | Inr result \<Rightarrow>
          (case result_text H result of
             Inl e \<Rightarrow> \<lparr> isError = True, text_content = js ''Error parsing JSON: '' @ message e \<rparr>
           | Inr t \<Rightarrow> \<lparr> isError = False, text_content = t \<rparr>))"
  using assms
  by (simp add: parse_json_handler_def parse_json_try_def JSON_parse_def split: sum.splits)

lemma result_text_raises:
  assumes "result_text H result = Inl e"
  shows "\<exists>v. result = Json v \<and> typeof H result = js ''object'' \<and> stringify_error H (js ''  '') v = Some e"
  using assms
  by (cases result) (auto simp: result_text_def JSON_stringify_call_def split: if_splits option.splits)

lemma traverse_raises_read:
  "traverse H v ps = Inl e \<Longrightarrow>
     \<exists>ps1 p ps2 w. ps = ps1 @ p # ps2 \<and> traverse H v ps1 = Inr w \<and> w \<noteq> Json JNull \<and> w \<noteq> Undefined
        \<and> get_property H w p = Inl e"
proof (induction ps arbitrary: v)
  case Nil
  then show ?case by simp
next
  case (Cons p ps)
  then have v: "v \<noteq> Json JNull" "v \<noteq> Undefined" by (auto split: if_splits)
  show ?case
  proof (cases "get_property H v p")
    case (Inl e')
    then have "e' = e" using Cons.prems v by simp
    then have "p # ps = [] @ p # ps \<and> traverse H v [] = Inr v \<and> v \<noteq> Json JNull \<and> v \<noteq> Undefined
        \<and> get_property H v p = Inl e"
      using Inl v by simp
    then show ?thesis by blast
  next
    case (Inr x)
    then have "traverse H x ps = Inl e" using Cons.prems v by simp
    then obtain ps1 q ps2 w where w: "ps = ps1 @ q # ps2" "traverse H x ps1 = Inr w"
        "w \<noteq> Json JNull" "w \<noteq> Undefined" "get_property H w q = Inl e"
      using Cons.IH by blast
    have "p # ps = (p # ps1) @ q # ps2 \<and> traverse H v (p # ps1) = Inr w \<and> w \<noteq> Json JNull \<and> w \<noteq> Undefined
        \<and> get_property H w q = Inl e"
      using w Inr v by simp
    then show ?thesis by blast
  qed
qed

lemma get_property_raises:
  assumes "get_property H w p = Inl e" "w \<noteq> Json JNull" "w \<noteq> Undefined"
  shows "(\<exists>j. w = Json j \<and> own_property j p = None \<and> inherited H j p = Inl e)
       \<or> (\<exists>h. w = Host h \<and> host_get H h p = Inl e)"
proof (cases w)
  case (Json j)
  then show ?thesis using assms by (cases j) (auto split: option.splits)
qed (use assms in simp_all)

lemma path_result_constructor_caller:
  "path_result standard_realm (JObj []) (Some (js ''constructor.caller'')) = Inl (TypeError restricted_message)"
  by (simp add: path_result_def split_constructor_caller standard_realm_def) (simp add: js_def)

lemma handler_constructor_caller:
  "parse_json_handler standard_realm (js ''{}'') (Some (js ''constructor.caller''))
     = \<lparr> isError = True,
         text_content = js ''Error extracting data with path '' @ [34] @ js ''constructor.caller'' @ [34]
                        @ js '': '' @ restricted_message \<rparr>"
  using parse_json_handler_parsed [OF parse_empty_object, of standard_realm "Some (js ''constructor.caller'')"]
  by (simp add: path_result_constructor_caller)



text \<open>\<open>doc_a_b_42\<close> is the document \<^verbatim>\<open>{"a":{"b":42}}\<close>.\<close>

lemma parse_a_b_42: "parse_text doc_a_b_42 = Some (JObj [(js ''a'', JObj [(js ''b'', JNum (Finite 42))])])"
  by (simp add: doc_a_b_42_def parse_text_def js_def quote_def is_ws_def parse_number_def scan_digits_def is_digit_def
      digits_value_def object_of_def obj_put_def array_index_def cons_result_def
      is_high_surrogate_def is_low_surrogate_def unescape_def short_escape_def)

lemma path_result_a:
  "path_result standard_realm (JObj [(js ''a'', JObj [(js ''b'', JNum (Finite 42))])]) (Some (js ''a''))
     = Inr (Json (JObj [(js ''b'', JNum (Finite 42))]))"
  by (simp add: path_result_def js_def)

section \<open>The claims about the \<^verbatim>\<open>curl\<close> tool\<close>

text \<open>
  \<open>curl_try\<close> hands \<open>curl_options req\<close> to \<^verbatim>\<open>fetch\<close>, so the fields of \<open>curl_options req\<close>
  are what the outbound call carries.

  Claim C7: the headers of the outbound request are the caller's header map as it is when
  one is supplied, with nothing merged in, and the two-entry map of \<^verbatim>\<open>Content-Type\<close> and
  \<^verbatim>\<open>Accept\<close>, both \<^verbatim>\<open>application/json\<close>, when none is.
\<close>

theorem curl_headers_verbatim_or_default:
  "init_headers (curl_options req) =
     (case headers req of
        Some h \<Rightarrow> h
      | None \<Rightarrow> [(js ''Content-Type'', js ''application/json''), (js ''Accept'', js ''application/json'')])"
  by (simp add: curl_options_def default_headers_def split: option.splits)

text \<open>
  Claim C5: a \<^verbatim>\<open>GET\<close> request carries no body whatever \<open>body\<close> is; any other request with
  a body carries the string itself when the body is a string and its JSON serialization
  otherwise.
\<close>

theorem curl_body_attachment:
  "init_body (curl_options req) =
     (if req_method req = GET then None
      else case body req of
             None \<Rightarrow> None
           | Some (JStr s) \<Rightarrow> Some s
           | Some v \<Rightarrow> Some (JSON_stringify v))"
  by (simp add: curl_options_def split: option.splits json.splits)

text \<open>
  Claim C10: for a request that is not a \<^verbatim>\<open>GET\<close>, a body that is the JSON value \<^verbatim>\<open>null\<close>
  counts as supplied and is sent as the four characters \<^verbatim>\<open>null\<close>; no body is attached
  only when the body is \<^verbatim>\<open>undefined\<close>.
\<close>

theorem curl_null_body:
  "req_method req \<noteq> GET \<Longrightarrow>
     (body req = Some JNull \<longrightarrow> init_body (curl_options req) = Some (js ''null'') \<and> length (js ''null'') = 4)
     \<and> (init_body (curl_options req) = None \<longleftrightarrow> body req = None)"
  by (auto simp: curl_options_def JSON_stringify_def js_def split: option.splits json.splits)

theorem curl_null_body_witness:
  "req_method post_null \<noteq> GET \<and> body post_null = Some JNull
   \<and> init_body (curl_options post_null) = Some (js ''null'')"
  using curl_null_body [of post_null] by (simp add: post_null_def)

text \<open>
  Claim C6: when the transport fails (\<^verbatim>\<open>fetch\<close> rejects), the tool returns the failure
  envelope with the message \<^verbatim>\<open>Error making request: \<close> followed by the reason, builds no
  response envelope, and lets nothing escape: \<open>curl_handler\<close> returns a result. The reason
  is the one the transport gives; a request whose body \<^verbatim>\<open>JSON.stringify\<close> cannot serialize
  on line 68 never reaches the transport, and the same envelope then carries the message
  of that exception.
\<close>

theorem curl_transport_failure:
  "fetch (url req) (curl_options req) = Inl e \<Longrightarrow>
     curl_handler H fetch req =
       \<lparr> isError = True,
         text_content = js ''Error making request: ''
                        @ (case body_error H req of None \<Rightarrow> message e | Some e' \<Rightarrow> message e') \<rparr>"
  by (simp add: curl_handler_def curl_try_def split: option.splits)

theorem curl_transport_failure_witness:
  "body_error bare_realm get_page = None
   \<and> curl_handler bare_realm (\<lambda>u i. Inl (FetchError (js ''socket hang up''))) get_page =
       \<lparr> isError = True, text_content = js ''Error making request: socket hang up'' \<rparr>"
  using curl_transport_failure [of "\<lambda>u i. Inl (FetchError (js ''socket hang up''))" get_page _ bare_realm]
  by (simp add: js_def body_error_def get_page_def)

text \<open>
  Claim C1 says that a response whose body is not JSON comes back with \<open>data\<close> equal to
  the raw body and with no error. The source intends that (the comment on line 81 reads
  \<^verbatim>\<open>If not JSON, get as text\<close>), but \<^verbatim>\<open>response.json()\<close> has consumed the body by the time it
  throws, so \<^verbatim>\<open>response.text()\<close> on line 82 rejects, the outer \<^verbatim>\<open>catch\<close> takes over and the
  tool returns the failure envelope \<^verbatim>\<open>Error making request: body used already for: \<close>
  and the URL. (When line 68 has thrown before the call, the failure envelope carries that
  message.) In no case is \<open>data\<close> the raw body.
\<close>

theorem curl_non_json_body:
  "fetch (url req) (curl_options req) = Inr r \<Longrightarrow> parse_text (body_text r) = None \<Longrightarrow>
     curl_handler H fetch req =
       \<lparr> isError = True,
         text_content = js ''Error making request: ''
                        @ (case body_error H req of
                             None \<Rightarrow> js ''body used already for: '' @ resp_url r
                           | Some e \<Rightarrow> message e) \<rparr>"
  by (simp add: curl_handler_def curl_try_def response_data_def response_json_def response_text_def
      consumeBody_def JSON_parse_def split: option.splits)

theorem curl_non_json_body_witness:
  "body_error bare_realm get_page = None
   \<and> curl_handler bare_realm (\<lambda>u i. Inr page) get_page =
     \<lparr> isError = True, text_content = js ''Error making request: body used already for: http://h/'' \<rparr>"
  using curl_non_json_body [of "\<lambda>u i. Inr page" get_page page bare_realm] parse_hello
  by (simp add: page_def js_def body_error_def get_page_def)

text \<open>
  Claim C8 says that every response the transport delivers, whatever its status code,
  gives a success envelope with \<open>status\<close>, \<open>statusText\<close> and \<open>headers\<close> taken from the
  response. That holds when the body is JSON and every \<^verbatim>\<open>JSON.stringify\<close> returns; when
  the body is not JSON, or is JSON that \<^verbatim>\<open>JSON.stringify\<close> on line 79 throws on, the defect
  above turns the response into a failure envelope, with any status code. The theorem
  gives the result of the tool for every response.
\<close>

theorem curl_transport_success:
  "fetch (url req) (curl_options req) = Inr r \<Longrightarrow>
     curl_handler H fetch req =
       (case body_error H req of
          Some e \<Rightarrow> \<lparr> isError = True, text_content = js ''Error making request: '' @ message e \<rparr>
        | None \<Rightarrow>
            (case parse_text (body_text r) of
               Some v \<Rightarrow>
                 (case stringify_error H (js ''  '') v of
                    None \<Rightarrow>
                      (case stringify_error H (js ''  '') (CurlResponse r (JSON_stringify_2 v)) of
                         None \<Rightarrow> curl_success r (JSON_stringify_2 v)
                       | Some e \<Rightarrow> \<lparr> isError = True, text_content = js ''Error making request: '' @ message e \<rparr>)
                  | Some e \<Rightarrow>
                      \<lparr> isError = True,
                        text_content = js ''Error making request: '' @ js ''body used already for: '' @ resp_url r \<rparr>)
             | None \<Rightarrow>
                 \<lparr> isError = True,
                   text_content = js ''Error making request: '' @ js ''body used already for: '' @ resp_url r \<rparr>))"
  by (simp add: curl_handler_def curl_try_def response_data_def response_json_def response_text_def
      consumeBody_def JSON_parse_def curl_result_def curl_success_def JSON_stringify_call_def
      JSON_stringify_2_def split: option.splits)

theorem curl_transport_success_witness:
  "curl_handler bare_realm (\<lambda>u i. Inr error_page) get_page =
     \<lparr> isError = True, text_content = js ''Error making request: body used already for: http://h/'' \<rparr>"
  using curl_transport_success [of "\<lambda>u i. Inr error_page" get_page error_page bare_realm] parse_html
  by (simp add: error_page_def js_def body_error_def get_page_def)




section \<open>The claims about the \<^verbatim>\<open>parse-json\<close> tool\<close>

text \<open>
  Claim C3 says that the tool fails exactly when the input is not JSON. It does fail then,
  with \<^verbatim>\<open>Error parsing JSON: \<close> and the message of the parser, whatever the path. But a
  parsed document can fail too, in two ways. Lines 139 to 150 catch what a property read
  throws during the traversal and return \<^verbatim>\<open>Error extracting data with path\<close>, and an
  inherited accessor such as \<^verbatim>\<open>caller\<close> of a built-in function does throw. And
  \<^verbatim>\<open>JSON.stringify\<close> on line 157 is inside the outer \<^verbatim>\<open>try\<close>: when it throws on the final
  value, the outer \<^verbatim>\<open>catch\<close> returns \<^verbatim>\<open>Error parsing JSON: \<close> and the message of that
  exception, although the document has parsed.

  Claim C3 as amended: when the input does not parse, the tool returns the failure
  \<^verbatim>\<open>Error parsing JSON: \<close> and the message of the parser, whatever the path; for a parsed
  document it fails exactly when a property read of the traversal throws, and then with
  the message \<^verbatim>\<open>Error extracting data with path\<close>, the quoted path and the reason, or when
  the final value is a parsed value of type \<^verbatim>\<open>object\<close> on which \<^verbatim>\<open>JSON.stringify\<close> throws,
  and then with the message \<^verbatim>\<open>Error parsing JSON: \<close> and the reason.
\<close>

theorem parse_json_failure:
  "(parse_text json = None \<longrightarrow>
      parse_json_handler H json path =
        \<lparr> isError = True, text_content = js ''Error parsing JSON: '' @ syntax_message H json \<rparr>)
   \<and> (\<forall>data. parse_text json = Some data \<longrightarrow>
        (isError (parse_json_handler H json path) \<longleftrightarrow>
           (\<exists>e. path_result H data path = Inl e)
           \<or> (\<exists>result e. path_result H data path = Inr result \<and> result_text H result = Inl e))
        \<and> (\<forall>e. path_result H data path = Inl e \<longrightarrow>
              (\<exists>p. path = Some p \<and> p \<noteq> [] \<and> traverse H (Json data) (split_dot p) = Inl e
                 \<and> parse_json_handler H json path =
                     \<lparr> isError = True,
                       text_content = js ''Error extracting data with path '' @ [34] @ p @ [34]
                                      @ js '': '' @ message e \<rparr>))
        \<and> (\<forall>result e. path_result H data path = Inr result \<and> result_text H result = Inl e \<longrightarrow>
              (\<exists>v. result = Json v \<and> typeof H result = js ''object''
                 \<and> stringify_error H (js ''  '') v = Some e)
              \<and> parse_json_handler H json path =
                  \<lparr> isError = True, text_content = js ''Error parsing JSON: '' @ message e \<rparr>))"
proof -
  have 1: "parse_text json = None \<Longrightarrow>
      parse_json_handler H json path =
        \<lparr> isError = True, text_content = js ''Error parsing JSON: '' @ syntax_message H json \<rparr>"
    by (simp add: parse_json_handler_def parse_json_try_def JSON_parse_def)
  have 2: "isError (parse_json_handler H json path) \<longleftrightarrow>
           (\<exists>e. path_result H data path = Inl e)
           \<or> (\<exists>result e. path_result H data path = Inr result \<and> result_text H result = Inl e)"
    if "parse_text json = Some data" for data
    using parse_json_handler_parsed [OF that, of H path] by (auto split: sum.splits)
  have 3: "\<exists>p. path = Some p \<and> p \<noteq> [] \<and> traverse H (Json data) (split_dot p) = Inl e
                 \<and> parse_json_handler H json path =
                     \<lparr> isError = True,
                       text_content = js ''Error extracting data with path '' @ [34] @ p @ [34]
                                      @ js '': '' @ message e \<rparr>"
    if "parse_text json = Some data" "path_result H data path = Inl e" for data e
    using parse_json_handler_parsed [OF that(1), of H path] that(2)
    by (auto simp: path_result_def split: option.splits if_splits)
  have 4: "(\<exists>v. result = Json v \<and> typeof H result = js ''object''
                 \<and> stringify_error H (js ''  '') v = Some e)
              \<and> parse_json_handler H json path =
                  \<lparr> isError = True, text_content = js ''Error parsing JSON: '' @ message e \<rparr>"
    if "parse_text json = Some data" "path_result H data path = Inr result" "result_text H result = Inl e"
    for data result e
    using parse_json_handler_parsed [OF that(1), of H path] that(2,3) result_text_raises [OF that(3)]
    by simp
  show ?thesis
    using 1 2 3 4 by blast
qed

text \<open>
  The four cases: \<^verbatim>\<open>{not json\<close> does not parse; \<^verbatim>\<open>{}\<close> with the path \<^verbatim>\<open>a\<close> succeeds;
  \<^verbatim>\<open>{}\<close> with the path \<^verbatim>\<open>constructor.caller\<close> fails in the traversal; five thousand nested
  arrays with no path fail in \<^verbatim>\<open>JSON.stringify\<close>.
\<close>

theorem parse_json_failure_witness:
  "parse_text (js ''{not json'') = None
   \<and> parse_json_handler bare_realm (js ''{not json'') (Some (js ''a'')) =
       \<lparr> isError = True, text_content = js ''Error parsing JSON: Unexpected token'' \<rparr>
   \<and> parse_text (js ''{}'') = Some (JObj [])
   \<and> \<not> isError (parse_json_handler standard_realm (js ''{}'') (Some (js ''a'')))
   \<and> path_result standard_realm (JObj []) (Some (js ''constructor.caller'')) = Inl (TypeError restricted_message)
   \<and> parse_json_handler standard_realm (js ''{}'') (Some (js ''constructor.caller'')) =
       \<lparr> isError = True,
         text_content = js ''Error extracting data with path '' @ [34] @ js ''constructor.caller'' @ [34]
                        @ js '': '' @ restricted_message \<rparr>
   \<and> parse_text (nested_text 4999) = Some (nested 4999)
   \<and> result_text standard_realm (Json (nested 4999)) = Inl (RangeError stack_message)
   \<and> parse_json_handler standard_realm (nested_text 4999) None =
       \<lparr> isError = True, text_content = js ''Error parsing JSON: '' @ stack_message \<rparr>"
proof -
  have A: "parse_json_handler bare_realm (js ''{not json'') (Some (js ''a'')) =
       \<lparr> isError = True, text_content = js ''Error parsing JSON: Unexpected token'' \<rparr>"
    using parse_json_failure [of "js ''{not json''" bare_realm "Some (js ''a'')"] parse_not_json
    by (simp add: bare_realm_def js_def)
  have p: "path_result standard_realm (JObj []) (Some (js ''a'')) = Inr Undefined"
    by (simp add: path_result_def standard_realm_def js_def)
  have B: "\<not> isError (parse_json_handler standard_realm (js ''{}'') (Some (js ''a'')))"
    using parse_json_failure [of "js ''{}''" standard_realm "Some (js ''a'')"] parse_empty_object p
    by (simp add: result_text_def js_def)
  have C: "parse_json_handler standard_realm (js ''{}'') (Some (js ''constructor.caller'')) =
       \<lparr> isError = True,
         text_content = js ''Error extracting data with path '' @ [34] @ js ''constructor.caller'' @ [34]
                        @ js '': '' @ restricted_message \<rparr>"
    using parse_json_failure [of "js ''{}''" standard_realm "Some (js ''constructor.caller'')"]
      parse_empty_object path_result_constructor_caller
    by simp
  have r: "result_text standard_realm (Json (nested 4999)) = Inl (RangeError stack_message)"
    by (simp add: result_text_def typeof_nested JSON_stringify_call_def standard_realm_deep)
  have D: "parse_json_handler standard_realm (nested_text 4999) None =
       \<lparr> isError = True, text_content = js ''Error parsing JSON: '' @ stack_message \<rparr>"
    using parse_json_failure [of "nested_text 4999" standard_realm None] parse_nested_text [of 4999] r
    by (simp add: path_result_def)
  show ?thesis
    using A B C D r parse_not_json parse_empty_object parse_nested_text [of 4999] path_result_constructor_caller
    by simp
qed

text \<open>The document \<^verbatim>\<open>{}\<close> parses, and the path \<^verbatim>\<open>constructor.caller\<close> makes the tool fail.\<close>

theorem parse_json_path_failure_counterexample:
  "parse_text (js ''{}'') \<noteq> None
   \<and> isError (parse_json_handler standard_realm (js ''{}'') (Some (js ''constructor.caller'')))"
  by (simp add: parse_empty_object handler_constructor_caller)

text \<open>
  Claim C4 says that the traversal never raises and that the error branch of lines 139 to
  150 cannot be reached. On \<^verbatim>\<open>{}\<close> with the path \<^verbatim>\<open>constructor.caller\<close> the loop reads
  \<^verbatim>\<open>Object\<close> and then its \<^verbatim>\<open>caller\<close>, which throws, and the branch returns its message.
\<close>

theorem traverse_raises_counterexample:
  "traverse standard_realm (Json (JObj [])) (split_dot (js ''constructor.caller''))
     = Inl (TypeError restricted_message)
   \<and> parse_json_handler standard_realm (js ''{}'') (Some (js ''constructor.caller''))
     = \<lparr> isError = True,
         text_content = js ''Error extracting data with path '' @ [34] @ js ''constructor.caller'' @ [34]
                        @ js '': '' @ restricted_message \<rparr>"
  using path_result_constructor_caller
  by (simp add: handler_constructor_caller path_result_def) (simp add: js_def)

text \<open>
  Claim C4 as amended: once the current value is \<^verbatim>\<open>null\<close> or \<^verbatim>\<open>undefined\<close> the traversal
  stops without error and that value is the result, whatever parts follow; and when the
  loop raises, it has reached without error a value that is neither \<^verbatim>\<open>null\<close> nor
  \<^verbatim>\<open>undefined\<close>, and the exception is the one thrown by reading the next part of the path
  there, which is either a property that a parsed value does not have itself and looks
  up in its prototype chain, or a property of a built-in object. Reading a property that
  a parsed value has, and going on from \<^verbatim>\<open>null\<close> or \<^verbatim>\<open>undefined\<close>, never raise.
\<close>

theorem traverse_stops_without_error:
  "(traverse H v ps = Inr (Json JNull) \<longrightarrow> traverse H v (ps @ qs) = Inr (Json JNull))
   \<and> (traverse H v ps = Inr Undefined \<longrightarrow> traverse H v (ps @ qs) = Inr Undefined)
   \<and> (\<forall>e. traverse H v ps = Inl e \<longrightarrow>
        (\<exists>ps1 p ps2 w. ps = ps1 @ p # ps2 \<and> traverse H v ps1 = Inr w \<and> w \<noteq> Json JNull \<and> w \<noteq> Undefined
           \<and> ((\<exists>j. w = Json j \<and> own_property j p = None \<and> inherited H j p = Inl e)
              \<or> (\<exists>h. w = Host h \<and> host_get H h p = Inl e))))"
proof -
  have "\<exists>ps1 p ps2 w. ps = ps1 @ p # ps2 \<and> traverse H v ps1 = Inr w \<and> w \<noteq> Json JNull \<and> w \<noteq> Undefined
           \<and> ((\<exists>j. w = Json j \<and> own_property j p = None \<and> inherited H j p = Inl e)
              \<or> (\<exists>h. w = Host h \<and> host_get H h p = Inl e))"
    if raised: "traverse H v ps = Inl e" for e
  proof -
    obtain ps1 p ps2 w where w: "ps = ps1 @ p # ps2" "traverse H v ps1 = Inr w"
        "w \<noteq> Json JNull" "w \<noteq> Undefined" "get_property H w p = Inl e"
      using traverse_raises_read [OF raised] by blast
    show ?thesis
      using w(1-4) get_property_raises [OF w(5) w(3) w(4)] by blast
  qed
  then show ?thesis
    by (simp add: traverse_append traverse_stops)
qed

text \<open>
  In the standard realm: \<^verbatim>\<open>a.b\<close> on \<^verbatim>\<open>{"a":null}\<close> stops at \<^verbatim>\<open>null\<close>; \<^verbatim>\<open>a.b.c\<close> on \<^verbatim>\<open>{"a":1}\<close>
  stops at \<^verbatim>\<open>undefined\<close>; \<^verbatim>\<open>constructor.caller\<close> on \<^verbatim>\<open>{}\<close> raises at a property of a built-in
  object.
\<close>

theorem traverse_stops_without_error_witness:
  "traverse standard_realm (Json (JObj [(js ''a'', JNull)])) [js ''a''] = Inr (Json JNull)
   \<and> traverse standard_realm (Json (JObj [(js ''a'', JNull)])) ([js ''a''] @ [js ''b'']) = Inr (Json JNull)
   \<and> traverse standard_realm (Json (JObj [(js ''a'', JNum (Finite 1))])) (split_dot (js ''a.b'')) = Inr Undefined
   \<and> traverse standard_realm (Json (JObj [(js ''a'', JNum (Finite 1))])) (split_dot (js ''a.b'') @ [js ''c''])
       = Inr Undefined
   \<and> split_dot (js ''a.b'') @ [js ''c''] = split_dot (js ''a.b.c'')
   \<and> traverse standard_realm (Json (JObj [])) (split_dot (js ''constructor.caller''))
       = Inl (TypeError restricted_message)
   \<and> (\<exists>ps1 p ps2 w. split_dot (js ''constructor.caller'') = ps1 @ p # ps2
         \<and> traverse standard_realm (Json (JObj [])) ps1 = Inr w \<and> w \<noteq> Json JNull \<and> w \<noteq> Undefined
         \<and> ((\<exists>j. w = Json j \<and> own_property j p = None
                \<and> inherited standard_realm j p = Inl (TypeError restricted_message))
            \<or> (\<exists>h. w = Host h \<and> host_get standard_realm h p = Inl (TypeError restricted_message))))"
proof -
  have 1: "traverse standard_realm (Json (JObj [(js ''a'', JNull)])) [js ''a''] = Inr (Json JNull)"
    by simp
  have 2: "traverse standard_realm (Json (JObj [(js ''a'', JNum (Finite 1))])) (split_dot (js ''a.b'')) = Inr Undefined"
    by (simp add: js_def standard_realm_def)
  have 3: "split_dot (js ''a.b'') @ [js ''c''] = split_dot (js ''a.b.c'')"
    by (simp add: js_def)
  have 4: "traverse standard_realm (Json (JObj [])) (split_dot (js ''constructor.caller''))
       = Inl (TypeError restricted_message)"
    using path_result_constructor_caller by (simp add: path_result_def) (simp add: js_def)
  show ?thesis
    using traverse_stops_without_error [of standard_realm "Json (JObj [(js ''a'', JNull)])" "[js ''a'']" "[js ''b'']"]
      traverse_stops_without_error [of standard_realm "Json (JObj [(js ''a'', JNum (Finite 1))])"
        "split_dot (js ''a.b'')" "[js ''c'']"]
      traverse_stops_without_error [of standard_realm "Json (JObj [])" "split_dot (js ''constructor.caller'')" "[]"]
      1 2 3 4
    by simp
qed

text \<open>
  Claim C9: a successful call prints its final value, the value the path leads to in the
  parsed document, as pretty-printed JSON when it is an object or an array, and as plain
  text, a string without quotes, when it is a primitive; the path \<^verbatim>\<open>a.b\<close> against
  \<^verbatim>\<open>{"a":{"b":42}}\<close> gives the text \<^verbatim>\<open>42\<close>. (A built-in object that the path has reached is
  printed as the realm prints it.)
\<close>

theorem parse_json_serialization:
  "(\<not> isError (parse_json_handler H json path) \<longrightarrow>
      (\<exists>data result. parse_text json = Some data \<and> path_result H data path = Inr result
         \<and> text_content (parse_json_handler H json path) =
             (case result of
                Json (JArr xs) \<Rightarrow> JSON_stringify_2 (JArr xs)
              | Json (JObj kvs) \<Rightarrow> JSON_stringify_2 (JObj kvs)
              | Json (JStr s) \<Rightarrow> s
              | Json (JNum n) \<Rightarrow> Number_toString n
              | Json (JBool b) \<Rightarrow> (if b then js ''true'' else js ''false'')
              | Json JNull \<Rightarrow> js ''null''
              | Undefined \<Rightarrow> js ''undefined''
              | Host h \<Rightarrow> if host_typeof H h = js ''object'' then host_stringify H h else host_String H h)))
   \<and> parse_json_handler H doc_a_b_42 (Some (js ''a.b'')) = \<lparr> isError = False, text_content = js ''42'' \<rparr>"
proof -
  have s: "split_dot (js ''a.b'') = [js ''a'', js ''b'']"
    by (simp add: js_def)
  have "path_result H (JObj [(js ''a'', JObj [(js ''b'', JNum (Finite 42))])]) (Some (js ''a.b''))
      = Inr (Json (JNum (Finite 42)))"
    by (simp add: path_result_def s) (simp add: js_def)
  then have "parse_json_handler H doc_a_b_42 (Some (js ''a.b''))
      = \<lparr> isError = False, text_content = Number_toString (Finite 42) \<rparr>"
    using parse_json_handler_parsed [OF parse_a_b_42, of H "Some (js ''a.b'')"]
    by (simp add: result_text_def) (simp add: js_def)
  then have A: "parse_json_handler H doc_a_b_42 (Some (js ''a.b'')) = \<lparr> isError = False, text_content = js ''42'' \<rparr>"
    by (simp only: Number_toString_42)
  have B: "\<exists>data result. parse_text json = Some data \<and> path_result H data path = Inr result
         \<and> text_content (parse_json_handler H json path) =
             (case result of
                Json (JArr xs) \<Rightarrow> JSON_stringify_2 (JArr xs)
              | Json (JObj kvs) \<Rightarrow> JSON_stringify_2 (JObj kvs)
              | Json (JStr s) \<Rightarrow> s
              | Json (JNum n) \<Rightarrow> Number_toString n
              | Json (JBool b) \<Rightarrow> (if b then js ''true'' else js ''false'')
              | Json JNull \<Rightarrow> js ''null''
              | Undefined \<Rightarrow> js ''undefined''
              | Host h \<Rightarrow> if host_typeof H h = js ''object'' then host_stringify H h else host_String H h)"
    if ok: "\<not> isError (parse_json_handler H json path)"
  proof (cases "parse_text json")
    case None
    then show ?thesis
      using ok by (simp add: parse_json_handler_def parse_json_try_def JSON_parse_def)
  next
    case (Some data)
    note h = parse_json_handler_parsed [OF Some, of H path]
    show ?thesis
    proof (cases "path_result H data path")
      case (Inl e)
      then show ?thesis using ok h by simp
    next
      case (Inr result)
      show ?thesis
      proof (cases "result_text H result")
        case (Inl e)
        then show ?thesis using ok h Inr by simp
      next
        case t: (Inr t)
        have "t = (case result of
                Json (JArr xs) \<Rightarrow> JSON_stringify_2 (JArr xs)
              | Json (JObj kvs) \<Rightarrow> JSON_stringify_2 (JObj kvs)
              | Json (JStr s) \<Rightarrow> s
              | Json (JNum n) \<Rightarrow> Number_toString n
              | Json (JBool b) \<Rightarrow> (if b then js ''true'' else js ''false'')
              | Json JNull \<Rightarrow> js ''null''
              | Undefined \<Rightarrow> js ''undefined''
              | Host h \<Rightarrow> if host_typeof H h = js ''object'' then host_stringify H h else host_String H h)"
        proof (cases result)
          case Undefined
          then show ?thesis using t by (simp add: result_text_def js_def)
        next
          case (Json v)
          then show ?thesis
            using t
            by (cases v)
              (auto simp: result_text_def JSON_stringify_call_def JSON_stringify_2_def js_def
                split: option.splits)
        next
          case (Host h)
          then show ?thesis using t by (auto simp: result_text_def)
        qed
        then show ?thesis using Some Inr t h by simp
      qed
    qed
  qed
  show ?thesis using A B by blast
qed

text \<open>The path \<^verbatim>\<open>a\<close> against \<^verbatim>\<open>{"a":{"b":42}}\<close> gives the pretty-printed object \<^verbatim>\<open>{"b":42}\<close>.\<close>

theorem parse_json_serialization_witness:
  "\<not> isError (parse_json_handler standard_realm doc_a_b_42 (Some (js ''a'')))
   \<and> text_content (parse_json_handler standard_realm doc_a_b_42 (Some (js ''a'')))
       = JSON_stringify_2 (JObj [(js ''b'', JNum (Finite 42))])"
proof -
  have ok: "\<not> isError (parse_json_handler standard_realm doc_a_b_42 (Some (js ''a'')))"
    using parse_json_handler_parsed [OF parse_a_b_42, of standard_realm "Some (js ''a'')"]
    by (simp add: path_result_a result_text_def JSON_stringify_call_def standard_realm_small)
  show ?thesis
    using parse_json_serialization [of standard_realm doc_a_b_42 "Some (js ''a'')"] ok parse_a_b_42 path_result_a
    by simp
qed

end
